theory Spec2Isabelle
  imports Main "HOL-Library.Word" "HOL-Library.Sublist"
begin

section \<open>Python values, exceptions and library operations\<close>

text \<open>
  The exceptions that the modelled code can meet. A raised exception is the \<open>Inl\<close>
  branch of a sum; a \<^verbatim>\<open>try: ... except: ...\<close> block is \<open>try_except\<close>.
\<close>

datatype error =
    UnboundLocalError | IndexError | AttributeError | KeyError
  | ValueError | TypeError | OSError | ArrowInvalid

type_synonym 'a result = "error + 'a"

definition rbind :: "'a result \<Rightarrow> ('a \<Rightarrow> 'b result) \<Rightarrow> 'b result" where
  "rbind m f = (case m of Inl e \<Rightarrow> Inl e | Inr v \<Rightarrow> f v)"

definition try_except :: "'a result \<Rightarrow> (error \<Rightarrow> 'a result) \<Rightarrow> 'a result" where
  "try_except m h = (case m of Inl e \<Rightarrow> h e | Inr v \<Rightarrow> Inr v)"

text \<open>Subscripting a Python sequence with an integer: an index from \<open>-len\<close> up to
  \<open>-1\<close> addresses the sequence from its end, and an index beyond either end raises.\<close>

definition py_getitem :: "'a list \<Rightarrow> int \<Rightarrow> 'a result" where
  "py_getitem xs i =
     (if 0 \<le> i \<and> i < int (length xs) then Inr (xs ! nat i)
      else if - int (length xs) \<le> i \<and> i < 0 then Inr (xs ! nat (int (length xs) + i))
      else Inl IndexError)"

text \<open>Attribute access on an object whose attribute may be missing, or on \<^verbatim>\<open>None\<close>.\<close>

definition getattr :: "'a option \<Rightarrow> 'a result" where
  "getattr a = (case a of None \<Rightarrow> Inl AttributeError | Some v \<Rightarrow> Inr v)"

text \<open>Lookup in a dict: a missing key raises KeyError.\<close>

definition dict_getitem :: "('k \<rightharpoonup> 'v) \<Rightarrow> 'k \<Rightarrow> 'v result" where
  "dict_getitem d k = (case d k of None \<Rightarrow> Inl KeyError | Some v \<Rightarrow> Inr v)"

text \<open>A 64-bit float is its IEEE 754 bit pattern; \<open>0.0\<close> is the pattern of zeros.\<close>

type_synonym float64 = "64 word"

text \<open>
  A one-dimensional sample array has one dtype for all its elements. The three cases are
  the three that \<^verbatim>\<open>extractSignalsByType\<close> tells apart: a dtype under
  \<^verbatim>\<open>np.record\<close>, a dtype under \<^verbatim>\<open>np.number\<close>, and every other dtype.
\<close>

datatype ('r, 'n, 't) ndarray =
    RecordArray "'r list" | NumberArray "'n list" | OtherArray "'t list"

datatype ('r, 'n, 't) scalar = RecordS 'r | NumberS 'n | OtherS 't

fun len_array :: "('r, 'n, 't) ndarray \<Rightarrow> nat" where
  "len_array (RecordArray rs) = length rs"
| "len_array (NumberArray ns) = length ns"
| "len_array (OtherArray ts) = length ts"

fun array_getitem :: "('r, 'n, 't) ndarray \<Rightarrow> int \<Rightarrow> ('r, 'n, 't) scalar result" where
  "array_getitem (RecordArray rs) i = rbind (py_getitem rs i) (\<lambda>r. Inr (RecordS r))"
| "array_getitem (NumberArray ns) i = rbind (py_getitem ns i) (\<lambda>n. Inr (NumberS n))"
| "array_getitem (OtherArray ts) i = rbind (py_getitem ts i) (\<lambda>t. Inr (OtherS t))"

text \<open>
  The operations of numpy, Python and asammdf that the code calls and that are not part
  of the repository are parameters: \<^verbatim>\<open>record.pprint()\<close>,
  \<^verbatim>\<open>astype(np.double)\<close>, \<^verbatim>\<open>astype(str)\<close>, \<^verbatim>\<open>float(x)\<close>, the two
  tables of \<^verbatim>\<open>v4_constants\<close>, and the contents of the block that
  \<^verbatim>\<open>np.empty\<close> allocates and does not initialise.
\<close>

record ('r, 'n, 't) lib =
  pprint :: "'r \<Rightarrow> string"
  astype_double :: "'n \<Rightarrow> float64"
  astype_str :: "'t \<Rightarrow> string"
  py_float :: "('r, 'n, 't) scalar \<Rightarrow> float64 result"
  SOURCE_TYPE_TO_STRING :: "int \<rightharpoonup> string"
  BUS_TYPE_TO_STRING :: "int \<rightharpoonup> string"
  uninitialised :: "nat \<Rightarrow> string"

text \<open>\<^verbatim>\<open>np.full(n, fill_value=v)\<close> and \<^verbatim>\<open>np.empty(n, dtype=str)\<close>: the first
  writes \<open>v\<close> into every entry, the second returns the block as it was allocated.\<close>

definition np_full :: "nat \<Rightarrow> 'a \<Rightarrow> 'a list" where
  "np_full n v = replicate n v"

definition np_empty :: "('r, 'n, 't) lib \<Rightarrow> nat \<Rightarrow> string list" where
  "np_empty l n = map (uninitialised l) [0..<n]"

section \<open>The container: signals and channel groups\<close>

record source =
  source_name :: string
  source_type :: int
  bus_type :: int

record ('r, 'n, 't) signal =
  name :: string
  unit :: string
  comment :: string
  group_index :: int
  channel_index :: int
  timestamps :: "float64 list"
  samples :: "('r, 'n, 't) ndarray"
  source :: source

text \<open>An attribute that may be missing is an option; so is an object that may be
  \<^verbatim>\<open>None\<close>.\<close>

record source_information =
  si_name :: "string option"
  si_path :: "string option"

record channel_group_block =
  acq_name :: "string option"
  acq_source :: "source_information option"

record group =
  channel_group :: "channel_group_block option"

record ('r, 'n, 't) mdf =
  groups :: "group list"
  iter_channels :: "('r, 'n, 't) signal list"
  header_comment :: string

section \<open>Source Resolver\<close>

definition lookup_channel_group_acq_name :: "('r, 'n, 't) mdf \<Rightarrow> ('r, 'n, 't) signal \<Rightarrow> string result" where
  "lookup_channel_group_acq_name m s =
     rbind (py_getitem (groups m) (group_index s)) (\<lambda>g.
     rbind (getattr (channel_group g)) (\<lambda>cg.
     getattr (acq_name cg)))"

definition lookup_acq_source_name :: "('r, 'n, 't) mdf \<Rightarrow> ('r, 'n, 't) signal \<Rightarrow> string result" where
  "lookup_acq_source_name m s =
     rbind (py_getitem (groups m) (group_index s)) (\<lambda>g.
     rbind (getattr (channel_group g)) (\<lambda>cg.
     rbind (getattr (acq_source cg)) (\<lambda>si.
     getattr (si_name si))))"

definition lookup_acq_source_path :: "('r, 'n, 't) mdf \<Rightarrow> ('r, 'n, 't) signal \<Rightarrow> string result" where
  "lookup_acq_source_path m s =
     rbind (py_getitem (groups m) (group_index s)) (\<lambda>g.
     rbind (getattr (channel_group g)) (\<lambda>cg.
     rbind (getattr (acq_source cg)) (\<lambda>si.
     getattr (si_path si))))"

definition getSource :: "('r, 'n, 't) mdf \<Rightarrow> ('r, 'n, 't) signal \<Rightarrow> (string \<times> string \<times> string) result" where
  "getSource m s =
     rbind (try_except (lookup_channel_group_acq_name m s) (\<lambda>_. Inr '''')) (\<lambda>channel_group_acq_name.
     rbind (try_except (lookup_acq_source_name m s) (\<lambda>_. Inr '''')) (\<lambda>acq_source_name.
     rbind (try_except (lookup_acq_source_path m s) (\<lambda>_. Inr '''')) (\<lambda>acq_source_path.
     Inr (channel_group_acq_name, acq_source_name, acq_source_path))))"

section \<open>Type Classifier\<close>

definition extractSignalsByType :: "('r, 'n, 't) lib \<Rightarrow> ('r, 'n, 't) signal \<Rightarrow> float64 list \<times> string list" where
  "extractSignalsByType l s =
     (case samples s of
        RecordArray rs \<Rightarrow> (np_full (length (timestamps s)) 0, map (pprint l) rs)
      | NumberArray ns \<Rightarrow> (map (astype_double l) ns, np_empty l (length (timestamps s)))
      | OtherArray ts \<Rightarrow> (np_full (length (timestamps s)) 0, map (astype_str l) ts))"

section \<open>Strings, paths and the files written\<close>

text \<open>\<^verbatim>\<open>str(n)\<close> of an integer, as the f-strings render counters and indices.\<close>

definition digit_char :: "nat \<Rightarrow> char" where
  "digit_char d = char_of (48 + d)"

function str_nat :: "nat \<Rightarrow> string" where
  "str_nat n = (if n < 10 then [digit_char n] else str_nat (n div 10) @ [digit_char (n mod 10)])"
  by pat_completeness auto
termination
  by (relation "measure id") auto

declare str_nat.simps [simp del]

definition str_int :: "int \<Rightarrow> string" where
  "str_int i = (if i < 0 then CHR ''-'' # str_nat (nat (- i)) else str_nat (nat i))"

text \<open>\<^verbatim>\<open>os.path.join(a, b)\<close> on POSIX, for two components.\<close>

definition os_path_join :: "string \<Rightarrow> string \<Rightarrow> string" where
  "os_path_join a b =
     (if b \<noteq> [] \<and> hd b = CHR ''/'' then b
      else if a = [] \<or> last a = CHR ''/'' then a @ b
      else a @ ''/'' @ b)"

text \<open>A cell of a table or of a delimited file, and a JSON document.\<close>

datatype pyval = PyStr string | PyFloat float64 | PyTuple "pyval list"

datatype json = JStr string | JInt int | JList "json list" | JObject "(string \<times> json) list"

fun json_get :: "json \<Rightarrow> string \<Rightarrow> json option" where
  "json_get (JObject kvs) k = map_of kvs k"
| "json_get _ k = None"

datatype artifact =
    ParquetPartition "(string \<times> pyval list) list"
  | CsvGz "pyval list list"
  | JsonFile json
  | EmptyFile

text \<open>
  The world outside the process: the files written so far, in the order of writing, each
  with the path it was written to (a partition of a dataset is recorded under the root
  path of its dataset), the lines printed by the signal dump, and the paths on which the
  operating system refuses an operation, with the exception it raises there.
\<close>

record world =
  files :: "(string \<times> artifact) list"
  stdout :: "string list"
  fault :: "string \<Rightarrow> error option"

type_synonym 'a io = "world \<Rightarrow> 'a result \<times> world"

definition check_fault :: "string \<Rightarrow> unit io" where
  "check_fault p w = (case fault w p of Some e \<Rightarrow> (Inl e, w) | None \<Rightarrow> (Inr (), w))"

definition write_file :: "string \<Rightarrow> artifact \<Rightarrow> world \<Rightarrow> world" where
  "write_file p a w = w\<lparr>files := files w @ [(p, a)]\<rparr>"

text \<open>\<^verbatim>\<open>return counter\<close> after a \<^verbatim>\<open>for counter, signal in enumerate(...)\<close>
  loop: the name is bound only once the loop body has been entered.\<close>

definition return_local :: "nat option \<Rightarrow> nat result" where
  "return_local counter = (case counter of None \<Rightarrow> Inl UnboundLocalError | Some c \<Rightarrow> Inr c)"

section \<open>Signal dump\<close>

definition dump_line :: "('r, 'n, 't) lib \<Rightarrow> ('r, 'n, 't) signal \<Rightarrow> string \<times> string \<times> string \<Rightarrow> string result" where
  "dump_line l s src =
     (case src of (channel_group_acq_name, acq_source_name, acq_source_path) \<Rightarrow>
        rbind (dict_getitem (SOURCE_TYPE_TO_STRING l) (source_type (source s))) (\<lambda>st.
        rbind (dict_getitem (BUS_TYPE_TO_STRING l) (bus_type (source s))) (\<lambda>bt.
        Inr (source_name (source s) @ '', '' @ channel_group_acq_name @ '', '' @ acq_source_name
             @ '', '' @ acq_source_path @ '', '' @ name s @ '', '' @ unit s @ '', '' @ st
             @ '', '' @ bt @ '', '' @ str_int (group_index s) @ '', ''
             @ str_int (channel_index s)))))"

fun dumpSignals_loop ::
  "('r, 'n, 't) lib \<Rightarrow> ('r, 'n, 't) mdf \<Rightarrow> (nat \<times> ('r, 'n, 't) signal) list \<Rightarrow> nat option \<Rightarrow> (nat option) io" where
  "dumpSignals_loop l m [] counter w = (Inr counter, w)"
| "dumpSignals_loop l m ((c, s) # rest) counter w =
     (case rbind (getSource m s) (dump_line l s) of
        Inl e \<Rightarrow> (Inl e, w)
      | Inr line \<Rightarrow> dumpSignals_loop l m rest (Some c) (w\<lparr>stdout := stdout w @ [line]\<rparr>))"

definition dumpSignals :: "('r, 'n, 't) lib \<Rightarrow> ('r, 'n, 't) mdf \<Rightarrow> nat io" where
  "dumpSignals l m w =
     (case dumpSignals_loop l m (enumerate 0 (iter_channels m)) None w of
        (Inl e, w') \<Rightarrow> (Inl e, w')
      | (Inr counter, w') \<Rightarrow> (return_local counter, w'))"

section \<open>Manifest Writer\<close>

definition signal_descriptor :: "('r, 'n, 't) lib \<Rightarrow> ('r, 'n, 't) signal \<Rightarrow> string \<times> string \<times> string \<Rightarrow> json result" where
  "signal_descriptor l s src =
     (case src of (channel_group_acq_name, acq_source_name, acq_source_path) \<Rightarrow>
        rbind (dict_getitem (SOURCE_TYPE_TO_STRING l) (source_type (source s))) (\<lambda>st.
        rbind (dict_getitem (BUS_TYPE_TO_STRING l) (bus_type (source s))) (\<lambda>bt.
        Inr (JObject
          [(''name'', JStr (name s)),
           (''unit'', JStr (unit s)),
           (''comment'', JStr (comment s)),
           (''group_index'', JInt (group_index s)),
           (''channel_index'', JInt (channel_index s)),
           (''channel_group_acq_name'', JStr channel_group_acq_name),
           (''acq_source_name'', JStr acq_source_name),
           (''acq_source_path'', JStr acq_source_path),
           (''source'', JStr (source_name (source s))),
           (''source_type'', JStr st),
           (''bus_type'', JStr bt)]))))"

fun metadata_signals ::
  "('r, 'n, 't) lib \<Rightarrow> ('r, 'n, 't) mdf \<Rightarrow> ('r, 'n, 't) signal list \<Rightarrow> json list \<Rightarrow> json list result" where
  "metadata_signals l m [] acc = Inr acc"
| "metadata_signals l m (s # rest) acc =
     rbind (rbind (getSource m s) (signal_descriptor l s)) (\<lambda>d.
     metadata_signals l m rest (acc @ [d]))"

definition metadata_path :: "string \<Rightarrow> string \<Rightarrow> string \<Rightarrow> string" where
  "metadata_path target basename uuid = os_path_join target (basename @ ''-'' @ uuid @ ''.metadata.json'')"

text \<open>\<open>now\<close> is the text of \<^verbatim>\<open>str(datetime.utcnow())\<close> at the call.\<close>

definition writeMetadata ::
  "('r, 'n, 't) lib \<Rightarrow> string \<Rightarrow> ('r, 'n, 't) mdf \<Rightarrow> string \<Rightarrow> string \<Rightarrow> nat \<Rightarrow> string \<Rightarrow> unit io" where
  "writeMetadata l basename m uuid target numberOfChunks now w =
     (case check_fault (metadata_path target basename uuid) w of
        (Inl e, w') \<Rightarrow> (Inl e, w')
      | (Inr _, w') \<Rightarrow>
          (case metadata_signals l m (iter_channels m) [] of
             Inl e \<Rightarrow> (Inl e, write_file (metadata_path target basename uuid) EmptyFile w')
           | Inr sigs \<Rightarrow>
               (Inr (), write_file (metadata_path target basename uuid)
                  (JsonFile (JObject
                     [(''name'', JStr basename),
                      (''source_uuid'', JStr uuid),
                      (''preparation_startDate'', JStr now),
                      (''signals'', JList sigs),
                      (''comments'', JStr (header_comment m)),
                      (''numberOfChunks'', JInt (int numberOfChunks))])) w')))"

section \<open>Columnar Sink\<close>

text \<open>\<^verbatim>\<open>pa.table(dict)\<close> refuses columns of different lengths.\<close>

definition pa_table :: "(string \<times> pyval list) list \<Rightarrow> (string \<times> pyval list) list result" where
  "pa_table cols =
     (case cols of
        [] \<Rightarrow> Inr []
      | c # cs \<Rightarrow>
          if list_all (\<lambda>d. length (snd d) = length (snd c)) cs then Inr cols
          else Inl ArrowInvalid)"

text \<open>\<^verbatim>\<open>pq.write_to_dataset(table, root_path=targetdir)\<close> adds one partition file to
  the dataset, or raises what the operating system raises on that directory.\<close>

definition write_to_dataset :: "(string \<times> pyval list) list \<Rightarrow> string \<Rightarrow> unit io" where
  "write_to_dataset table root_path w =
     (case check_fault root_path w of
        (Inl e, w') \<Rightarrow> (Inl e, w')
      | (Inr _, w') \<Rightarrow> (Inr (), write_file root_path (ParquetPartition table) w'))"

definition signal_table ::
  "('r, 'n, 't) lib \<Rightarrow> string \<Rightarrow> string \<Rightarrow> string \<Rightarrow> ('r, 'n, 't) signal \<Rightarrow> string
     \<Rightarrow> (string \<times> pyval list) list result" where
  "signal_table l channel_group_acq_name acq_source_name acq_source_path s uuid =
     (case extractSignalsByType l s of (numericSignals, stringSignals) \<Rightarrow>
        rbind (dict_getitem (SOURCE_TYPE_TO_STRING l) (source_type (source s))) (\<lambda>st.
        rbind (dict_getitem (BUS_TYPE_TO_STRING l) (bus_type (source s))) (\<lambda>bt.
        pa_table
          [(''source_uuid'', np_full (length (timestamps s)) (PyStr uuid)),
           (''name'', np_full (length (timestamps s)) (PyStr (name s))),
           (''unit'', np_full (length (timestamps s)) (PyStr (unit s))),
           (''timestamp'', map PyFloat (timestamps s)),
           (''value'', map PyFloat numericSignals),
           (''value_string'', map PyStr stringSignals),
           (''source'', np_full (length (timestamps s)) (PyStr (source_name (source s)))),
           (''channel_group_acq_name'', np_full (length (timestamps s)) (PyStr channel_group_acq_name)),
           (''acq_source_name'', np_full (length (timestamps s)) (PyStr acq_source_name)),
           (''acq_source_path'', np_full (length (timestamps s)) (PyStr acq_source_path)),
           (''source_type'', np_full (length (timestamps s)) (PyStr st)),
           (''bus_type'', np_full (length (timestamps s)) (PyStr bt))])))"

text \<open>The body of the \<^verbatim>\<open>try\<close> block of \<^verbatim>\<open>processSignal\<close>, and the function
  with its \<^verbatim>\<open>except Exception\<close> clause, which prints and goes on.\<close>

definition processSignal_try ::
  "('r, 'n, 't) lib \<Rightarrow> string \<Rightarrow> string \<Rightarrow> string \<Rightarrow> ('r, 'n, 't) signal \<Rightarrow> string \<Rightarrow> string \<Rightarrow> unit io" where
  "processSignal_try l channel_group_acq_name acq_source_name acq_source_path s uuid targetdir w =
     (case signal_table l channel_group_acq_name acq_source_name acq_source_path s uuid of
        Inl e \<Rightarrow> (Inl e, w)
      | Inr table \<Rightarrow> write_to_dataset table targetdir w)"

definition processSignal ::
  "('r, 'n, 't) lib \<Rightarrow> nat \<Rightarrow> string \<Rightarrow> string \<Rightarrow> string \<Rightarrow> ('r, 'n, 't) signal \<Rightarrow> string \<Rightarrow> string \<Rightarrow> unit io" where
  "processSignal l counter channel_group_acq_name acq_source_name acq_source_path s uuid targetdir w =
     (case processSignal_try l channel_group_acq_name acq_source_name acq_source_path s uuid targetdir w of
        (Inl e, w') \<Rightarrow> (Inr (), w')
      | (Inr _, w') \<Rightarrow> (Inr (), w'))"

section \<open>Export Scheduler, columnar path\<close>

text \<open>
  \<^verbatim>\<open>pool.apply_async(f, args)\<close> hands a task to the pool and returns its handle;
  \<^verbatim>\<open>r.wait()\<close> returns once the task has run, whatever its outcome, which
  \<^verbatim>\<open>wait\<close> does not re-raise. In this sequential reading a handle is the task
  itself and the task has run, at the latest, when the main process has waited for it.
\<close>

definition wait :: "unit io \<Rightarrow> world \<Rightarrow> world" where
  "wait r w = snd (r w)"

fun writeParquet_loop ::
  "('r, 'n, 't) lib \<Rightarrow> ('r, 'n, 't) mdf \<Rightarrow> string \<Rightarrow> string \<Rightarrow> (nat \<times> ('r, 'n, 't) signal) list
     \<Rightarrow> (unit io) list \<Rightarrow> nat option \<Rightarrow> ((unit io) list \<times> nat option) result" where
  "writeParquet_loop l m uuid targetdir [] result counter = Inr (result, counter)"
| "writeParquet_loop l m uuid targetdir ((c, s) # rest) result counter =
     (case getSource m s of
        Inl e \<Rightarrow> Inl e
      | Inr (channel_group_acq_name, acq_source_name, acq_source_path) \<Rightarrow>
          writeParquet_loop l m uuid targetdir rest
            (result @ [processSignal l c channel_group_acq_name acq_source_name acq_source_path s uuid targetdir])
            (Some c))"

definition writeParquet ::
  "('r, 'n, 't) lib \<Rightarrow> string \<Rightarrow> ('r, 'n, 't) mdf \<Rightarrow> string \<Rightarrow> string \<Rightarrow> nat io" where
  "writeParquet l basename m uuid target w =
     (let targetdir = os_path_join target (basename @ ''-'' @ uuid) in
      case writeParquet_loop l m uuid targetdir (enumerate 0 (iter_channels m)) [] None of
        Inl e \<Rightarrow> (Inl e, w)
      | Inr (result, counter) \<Rightarrow> (return_local counter, fold wait result w))"

section \<open>Row Sink and the row-oriented path\<close>

definition csv_header :: "pyval list" where
  "csv_header = map PyStr
     [''source_uuid'', ''name'', ''unit'', ''timestamp'', ''value'', ''value_string'', ''source'',
      ''channel_group_acq_name'', ''acq_source_name'', ''acq_source_path'', ''source_type'',
      ''bus_type'']"

definition csv_path :: "string \<Rightarrow> string \<Rightarrow> nat \<Rightarrow> string" where
  "csv_path targetdir uuid counter = os_path_join targetdir (uuid @ ''-'' @ str_nat counter @ ''.csv.gz'')"

text \<open>One pass of the loop over \<^verbatim>\<open>indx\<close>: the guarded conversion that binds
  \<^verbatim>\<open>numericValue\<close>, then the row handed to \<^verbatim>\<open>writer.writerow\<close>.\<close>

definition numericValue_of :: "('r, 'n, 't) lib \<Rightarrow> ('r, 'n, 't) signal \<Rightarrow> nat \<Rightarrow> pyval result" where
  "numericValue_of l s indx =
     try_except
       (rbind (array_getitem (samples s) (int indx)) (\<lambda>x.
        rbind (py_float l x) (\<lambda>f. Inr (PyFloat f))))
       (\<lambda>_. Inr (PyTuple [PyStr '''']))"

definition csv_row ::
  "('r, 'n, 't) lib \<Rightarrow> string \<Rightarrow> string \<Rightarrow> string \<Rightarrow> ('r, 'n, 't) signal \<Rightarrow> string
     \<Rightarrow> float64 list \<Rightarrow> string list \<Rightarrow> nat \<Rightarrow> pyval list result" where
  "csv_row l channel_group_acq_name acq_source_name acq_source_path s uuid numericSignals stringSignals indx =
     rbind (numericValue_of l s indx) (\<lambda>numericValue.
     rbind (py_getitem (timestamps s) (int indx)) (\<lambda>ts.
     rbind (py_getitem numericSignals (int indx)) (\<lambda>num.
     rbind (py_getitem stringSignals (int indx)) (\<lambda>str.
     rbind (dict_getitem (SOURCE_TYPE_TO_STRING l) (source_type (source s))) (\<lambda>st.
     rbind (dict_getitem (BUS_TYPE_TO_STRING l) (bus_type (source s))) (\<lambda>bt.
     Inr [PyStr uuid, PyStr (name s), PyStr (unit s), PyFloat ts, PyFloat num, PyStr str,
          PyStr (source_name (source s)), PyStr channel_group_acq_name, PyStr acq_source_name,
          PyStr acq_source_path, PyStr st, PyStr bt]))))))"

text \<open>The rows written before the loop ends or an exception leaves it.\<close>

fun csv_rows ::
  "('r, 'n, 't) lib \<Rightarrow> string \<Rightarrow> string \<Rightarrow> string \<Rightarrow> ('r, 'n, 't) signal \<Rightarrow> string
     \<Rightarrow> float64 list \<Rightarrow> string list \<Rightarrow> nat list \<Rightarrow> pyval list list \<Rightarrow> pyval list list \<times> error option" where
  "csv_rows l cgan asn asp s uuid numericSignals stringSignals [] written = (written, None)"
| "csv_rows l cgan asn asp s uuid numericSignals stringSignals (indx # rest) written =
     (case csv_row l cgan asn asp s uuid numericSignals stringSignals indx of
        Inl e \<Rightarrow> (written, Some e)
      | Inr row \<Rightarrow> csv_rows l cgan asn asp s uuid numericSignals stringSignals rest (written @ [row]))"

definition processSignalCSV ::
  "('r, 'n, 't) lib \<Rightarrow> nat \<Rightarrow> string \<Rightarrow> string \<Rightarrow> string \<Rightarrow> ('r, 'n, 't) signal \<Rightarrow> string \<Rightarrow> string
     \<Rightarrow> string \<Rightarrow> unit io" where
  "processSignalCSV l counter channel_group_acq_name acq_source_name acq_source_path s uuid targetdir basename w =
     (case extractSignalsByType l s of (numericSignals, stringSignals) \<Rightarrow>
        (case check_fault targetdir w of
           (Inl e, w1) \<Rightarrow> (Inl e, w1)
         | (Inr _, w1) \<Rightarrow>
             (case check_fault (csv_path targetdir uuid counter) w1 of
                (Inl e, w2) \<Rightarrow> (Inl e, w2)
              | (Inr _, w2) \<Rightarrow>
                  (case csv_rows l channel_group_acq_name acq_source_name acq_source_path s uuid
                          numericSignals stringSignals [0..<length (timestamps s)] [csv_header] of
                     (written, Some e) \<Rightarrow>
                       (Inl e, write_file (csv_path targetdir uuid counter) (CsvGz written) w2)
                   | (written, None) \<Rightarrow>
                       (Inr (), write_file (csv_path targetdir uuid counter) (CsvGz written) w2)))))"

fun writeCsv_loop ::
  "('r, 'n, 't) lib \<Rightarrow> ('r, 'n, 't) mdf \<Rightarrow> string \<Rightarrow> string \<Rightarrow> string \<Rightarrow> (nat \<times> ('r, 'n, 't) signal) list
     \<Rightarrow> nat option \<Rightarrow> (nat option) io" where
  "writeCsv_loop l m uuid targetdir basename [] counter w = (Inr counter, w)"
| "writeCsv_loop l m uuid targetdir basename ((c, s) # rest) counter w =
     (case getSource m s of
        Inl e \<Rightarrow> (Inl e, w)
      | Inr (channel_group_acq_name, acq_source_name, acq_source_path) \<Rightarrow>
          (case processSignalCSV l c channel_group_acq_name acq_source_name acq_source_path s uuid
                  targetdir basename w of
             (Inl e, w') \<Rightarrow> (Inl e, w')
           | (Inr _, w') \<Rightarrow> writeCsv_loop l m uuid targetdir basename rest (Some c) w'))"

definition writeCsv ::
  "('r, 'n, 't) lib \<Rightarrow> string \<Rightarrow> ('r, 'n, 't) mdf \<Rightarrow> string \<Rightarrow> string \<Rightarrow> nat io" where
  "writeCsv l basename m uuid target w =
     (let targetdir = os_path_join target (basename @ ''-'' @ uuid) in
      case writeCsv_loop l m uuid targetdir basename (enumerate 0 (iter_channels m)) None w of
        (Inl e, w') \<Rightarrow> (Inl e, w')
      | (Inr counter, w') \<Rightarrow> (return_local counter, w'))"

text \<open>The file that \<^verbatim>\<open>processSignalCSV\<close> leaves for a signal once it has opened it:
  the header and the rows written before the loop ends or an exception leaves it.\<close>

definition csv_file_of ::
  "('r, 'n, 't) lib \<Rightarrow> ('r, 'n, 't) mdf \<Rightarrow> string \<Rightarrow> ('r, 'n, 't) signal \<Rightarrow> artifact" where
  "csv_file_of l m uuid s =
     (case getSource m s of
        Inl e \<Rightarrow> EmptyFile
      | Inr (channel_group_acq_name, acq_source_name, acq_source_path) \<Rightarrow>
          (case extractSignalsByType l s of (numericSignals, stringSignals) \<Rightarrow>
             CsvGz (fst (csv_rows l channel_group_acq_name acq_source_name acq_source_path s uuid
                           numericSignals stringSignals [0..<length (timestamps s)] [csv_header]))))"

section \<open>One recording\<close>

record args =
  dump :: bool
  exportFormat :: string
  target :: string

text \<open>
  \<^verbatim>\<open>processFile(filename)\<close> opens the container, takes the stem of the file name
  and draws a fresh UUID; the opened container \<open>m\<close>, the stem \<open>basename\<close> and the text
  \<open>file_uuid\<close> of the UUID are given here, with the text \<open>now\<close> of the clock.
\<close>

definition processFile ::
  "('r, 'n, 't) lib \<Rightarrow> args \<Rightarrow> string \<Rightarrow> ('r, 'n, 't) mdf \<Rightarrow> string \<Rightarrow> string \<Rightarrow> unit io" where
  "processFile l a basename m file_uuid now w =
     (if dump a then
        (case dumpSignals l m w of
           (Inl e, w') \<Rightarrow> (Inl e, w')
         | (Inr numberOfChunks, w') \<Rightarrow> (Inr (), w'))
      else
        (case (if exportFormat a = ''parquet'' then writeParquet l basename m file_uuid (target a) w
               else if exportFormat a = ''csv'' then writeCsv l basename m file_uuid (target a) w
               else (Inr 0, w)) of
           (Inl e, w') \<Rightarrow> (Inl e, w')
         | (Inr numberOfChunks, w') \<Rightarrow>
             writeMetadata l basename m file_uuid (target a) numberOfChunks now w'))"

text \<open>What the manifest at a path says, when one has been written there.\<close>

definition manifest_at :: "world \<Rightarrow> string \<Rightarrow> json option" where
  "manifest_at w p = (case map_of (rev (files w)) p of Some (JsonFile j) \<Rightarrow> Some j | _ \<Rightarrow> None)"

section \<open>The columnar export of one recording, with the pool at work\<close>

text \<open>
  The main process and the workers of the pool as one machine. The main process is
  \<^verbatim>\<open>processFile\<close> with the format \<^verbatim>\<open>parquet\<close>: it hands one task per signal
  to the pool, waits for every handle in turn, returns the counter, and writes the
  manifest. A worker may run any task that has been handed over and has not run yet, at
  any moment; \<^verbatim>\<open>r.wait()\<close> goes on only when the task of \<open>r\<close> has run. A
  schedule is the list of who moves next; a move that is not possible leaves the state as
  it is.
\<close>

datatype pc =
    Dispatching nat | Waiting nat | Returning | WritingMetadata nat | Finished | Raised error

record sched =
  at :: pc
  result :: "(unit io \<times> bool) list"
  counter :: "nat option"
  world :: world

datatype action = Main | Worker nat

definition initial :: "world \<Rightarrow> sched" where
  "initial w = \<lparr>at = Dispatching 0, result = [], counter = None, world = w\<rparr>"

definition main_step ::
  "('r, 'n, 't) lib \<Rightarrow> string \<Rightarrow> ('r, 'n, 't) mdf \<Rightarrow> string \<Rightarrow> string \<Rightarrow> string \<Rightarrow> sched \<Rightarrow> sched" where
  "main_step l basename m uuid tgt now s =
     (case at s of
        Dispatching i \<Rightarrow>
          (if i < length (iter_channels m) then
             (case getSource m (iter_channels m ! i) of
                Inl e \<Rightarrow> s\<lparr>at := Raised e\<rparr>
              | Inr (channel_group_acq_name, acq_source_name, acq_source_path) \<Rightarrow>
                  s\<lparr>at := Dispatching (Suc i),
                    result := result s @
                      [(processSignal l i channel_group_acq_name acq_source_name acq_source_path
                          (iter_channels m ! i) uuid (os_path_join tgt (basename @ ''-'' @ uuid)), False)],
                    counter := Some i\<rparr>)
           else s\<lparr>at := Waiting 0\<rparr>)
      | Waiting j \<Rightarrow>
          (if j < length (result s) then
             (if snd (result s ! j) then s\<lparr>at := Waiting (Suc j)\<rparr> else s)
           else s\<lparr>at := Returning\<rparr>)
      | Returning \<Rightarrow>
          (case return_local (counter s) of
             Inl e \<Rightarrow> s\<lparr>at := Raised e\<rparr>
           | Inr numberOfChunks \<Rightarrow> s\<lparr>at := WritingMetadata numberOfChunks\<rparr>)
      | WritingMetadata numberOfChunks \<Rightarrow>
          (case writeMetadata l basename m uuid tgt numberOfChunks now (world s) of
             (Inl e, w') \<Rightarrow> s\<lparr>at := Raised e, world := w'\<rparr>
           | (Inr _, w') \<Rightarrow> s\<lparr>at := Finished, world := w'\<rparr>)
      | Finished \<Rightarrow> s
      | Raised e \<Rightarrow> s)"

definition worker_step :: "nat \<Rightarrow> sched \<Rightarrow> sched" where
  "worker_step j s =
     (if j < length (result s) \<and> \<not> snd (result s ! j) then
        s\<lparr>result := (result s)[j := (fst (result s ! j), True)],
          world := snd (fst (result s ! j) (world s))\<rparr>
      else s)"

fun step ::
  "('r, 'n, 't) lib \<Rightarrow> string \<Rightarrow> ('r, 'n, 't) mdf \<Rightarrow> string \<Rightarrow> string \<Rightarrow> string \<Rightarrow> action \<Rightarrow> sched \<Rightarrow> sched" where
  "step l basename m uuid tgt now Main s = main_step l basename m uuid tgt now s"
| "step l basename m uuid tgt now (Worker j) s = worker_step j s"

definition run ::
  "('r, 'n, 't) lib \<Rightarrow> string \<Rightarrow> ('r, 'n, 't) mdf \<Rightarrow> string \<Rightarrow> string \<Rightarrow> string \<Rightarrow> action list \<Rightarrow> sched \<Rightarrow> sched" where
  "run l basename m uuid tgt now schedule s = fold (step l basename m uuid tgt now) schedule s"

text \<open>The export step has returned or raised: the main process is past its last wait.\<close>

fun export_left :: "pc \<Rightarrow> bool" where
  "export_left (Dispatching i) = False"
| "export_left (Waiting j) = False"
| "export_left _ = True"

definition is_manifest :: "artifact \<Rightarrow> bool" where
  "is_manifest a = (case a of JsonFile j \<Rightarrow> True | EmptyFile \<Rightarrow> True | _ \<Rightarrow> False)"

section \<open>A recording to compute with\<close>

text \<open>
  An instance of the library operations: records are lists of named fields rendered one
  per line, numeric samples are doubles already, text samples are their own rendering
  and none of those used below is a numeral, so \<^verbatim>\<open>float\<close> refuses them. The block
  that \<^verbatim>\<open>np.empty\<close> returns holds zeros in \<open>zeroed_lib\<close> and the character
  \<^verbatim>\<open>x\<close> in \<open>dirty_lib\<close>.
\<close>

definition zeroed_lib :: "((string \<times> string) list, float64, string) lib" where
  "zeroed_lib =
     \<lparr>pprint = (\<lambda>r. concat (map (\<lambda>(k, v). k @ '': '' @ v @ [CHR 0x0A]) r)),
      astype_double = (\<lambda>x. x),
      astype_str = (\<lambda>t. t),
      py_float = (\<lambda>x. case x of RecordS r \<Rightarrow> Inl TypeError | NumberS f \<Rightarrow> Inr f
                               | OtherS t \<Rightarrow> Inl ValueError),
      SOURCE_TYPE_TO_STRING = map_of [(0, ''OTHER''), (1, ''ECU''), (2, ''BUS''), (3, ''IO''),
                                      (4, ''TOOL''), (5, ''USER'')],
      BUS_TYPE_TO_STRING = map_of [(0, ''NONE''), (1, ''OTHER''), (2, ''CAN''), (3, ''LIN''),
                                   (4, ''MOST''), (5, ''FLEXRAY''), (6, ''K_LINE''),
                                   (7, ''ETHERNET''), (8, ''USB'')],
      uninitialised = (\<lambda>_. '''')\<rparr>"

definition dirty_lib :: "((string \<times> string) list, float64, string) lib" where
  "dirty_lib = zeroed_lib\<lparr>uninitialised := (\<lambda>_. ''x'')\<rparr>"

definition ecu :: source where
  "ecu = \<lparr>source_name = ''ECU1'', source_type = 1, bus_type = 2\<rparr>"

text \<open>The signal \<^verbatim>\<open>Speed\<close> in \<^verbatim>\<open>km/h\<close>: samples 10.0, 20.5, 30.0 at 0.0, 0.1, 0.2.\<close>

definition speed :: "((string \<times> string) list, float64, string) signal" where
  "speed =
     \<lparr>name = ''Speed'', unit = ''km/h'', comment = '''', group_index = 0, channel_index = 1,
      timestamps = [0, 0x3FB999999999999A, 0x3FC999999999999A],
      samples = NumberArray [0x4024000000000000, 0x4034800000000000, 0x403E000000000000],
      source = ecu\<rparr>"

text \<open>A text signal with the one sample \<^verbatim>\<open>abc\<close>, and a record signal with one sample.\<close>

definition gear :: "((string \<times> string) list, float64, string) signal" where
  "gear =
     \<lparr>name = ''Gear'', unit = '''', comment = '''', group_index = 0, channel_index = 2,
      timestamps = [0], samples = OtherArray [''abc''], source = ecu\<rparr>"

definition frame :: "((string \<times> string) list, float64, string) signal" where
  "frame =
     \<lparr>name = ''Frame'', unit = '''', comment = '''', group_index = 0, channel_index = 3,
      timestamps = [0], samples = RecordArray [[(''id'', ''7''), (''dlc'', ''8'')]], source = ecu\<rparr>"

definition can_group :: group where
  "can_group =
     \<lparr>channel_group = Some \<lparr>acq_name = Some ''Frame1'',
        acq_source = Some \<lparr>si_name = Some ''CAN1'', si_path = Some ''CAN1.Frame1''\<rparr>\<rparr>\<rparr>"

definition recording ::
  "((string \<times> string) list, float64, string) signal list
     \<Rightarrow> ((string \<times> string) list, float64, string) mdf" where
  "recording sigs = \<lparr>groups = [can_group], iter_channels = sigs, header_comment = ''''\<rparr>"

definition clean_world :: world where
  "clean_world = \<lparr>files = [], stdout = [], fault = (\<lambda>_. None)\<rparr>"

text \<open>A world in which nothing can be written under the directory of the run.\<close>

definition readonly_world :: world where
  "readonly_world =
     \<lparr>files = [], stdout = [], fault = (\<lambda>p. if p = ''out/rec-u1'' then Some OSError else None)\<rparr>"

definition parquet_args :: args where
  "parquet_args = \<lparr>dump = False, exportFormat = ''parquet'', target = ''out''\<rparr>"

definition csv_args :: args where
  "csv_args = \<lparr>dump = False, exportFormat = ''csv'', target = ''out''\<rparr>"

definition numberOfChunks_at :: "world \<Rightarrow> string \<Rightarrow> json option" where
  "numberOfChunks_at w p =
     (case manifest_at w p of Some j \<Rightarrow> json_get j ''numberOfChunks'' | None \<Rightarrow> None)"

section \<open>What holds at each point of the main process\<close>

text \<open>
  With \<open>n\<close> signals in the container: while dispatching, as many handles as signals seen;
  while waiting for handle \<open>j\<close>, all \<open>n\<close> handles exist and those before \<open>j\<close> have run;
  from the return of the export on, all \<open>n\<close> tasks have run.
\<close>

fun phase_inv :: "nat \<Rightarrow> (unit io \<times> bool) list \<Rightarrow> pc \<Rightarrow> bool" where
  "phase_inv n rs (Dispatching i) = (i \<le> n \<and> length rs = i)"
| "phase_inv n rs (Waiting j) = (j \<le> n \<and> length rs = n \<and> (\<forall>k<j. snd (rs ! k)))"
| "phase_inv n rs _ = (length rs = n \<and> (\<forall>r \<in> set rs. snd r))"

fun manifest_phase :: "pc \<Rightarrow> bool" where
  "manifest_phase Finished = True"
| "manifest_phase (Raised e) = True"
| "manifest_phase _ = False"

definition barrier_inv ::
  "('r, 'n, 't) lib \<Rightarrow> string \<Rightarrow> ('r, 'n, 't) mdf \<Rightarrow> string \<Rightarrow> string \<Rightarrow> world \<Rightarrow> sched \<Rightarrow> bool" where
  "barrier_inv l basename m uuid tgt w0 s =
     (phase_inv (length (iter_channels m)) (result s) (at s)
      \<and> (\<forall>r \<in> set (result s). \<exists>i a b c sg.
            fst r = processSignal l i a b c sg uuid (os_path_join tgt (basename @ ''-'' @ uuid)))
      \<and> (\<not> manifest_phase (at s) \<longrightarrow>
            (\<exists>ps. files (world s) = files w0 @ ps \<and> (\<forall>x \<in> set ps. \<not> is_manifest (snd x))))
      \<and> (at s = Finished \<longrightarrow>
            (\<exists>ps j. files (world s) = files w0 @ ps @ [(metadata_path tgt basename uuid, JsonFile j)])))"

section \<open>Basic facts\<close>

lemma rbind_Inr [simp]: "rbind (Inr v) f = f v"
  by (simp add: rbind_def)

lemma rbind_Inl [simp]: "rbind (Inl e) f = Inl e"
  by (simp add: rbind_def)

lemma try_except_total: "try_except m (\<lambda>_. Inr d) = Inr (case m of Inl _ \<Rightarrow> d | Inr v \<Rightarrow> v)"
  by (simp add: try_except_def split: sum.splits)

lemma return_local_None [simp]: "return_local None = Inl UnboundLocalError"
  by (simp add: return_local_def)

lemma return_local_Some [simp]: "return_local (Some c) = Inr c"
  by (simp add: return_local_def)

lemma length_np_empty [simp]: "length (np_empty l n) = n"
  by (simp add: np_empty_def)

lemma length_np_full [simp]: "length (np_full n v) = n"
  by (simp add: np_full_def)

section \<open>Source Resolver: the lookups are independent and never raise\<close>

lemma getSource_eq:
  "getSource m s =
     Inr (case lookup_channel_group_acq_name m s of Inl _ \<Rightarrow> '''' | Inr v \<Rightarrow> v,
          case lookup_acq_source_name m s of Inl _ \<Rightarrow> '''' | Inr v \<Rightarrow> v,
          case lookup_acq_source_path m s of Inl _ \<Rightarrow> '''' | Inr v \<Rightarrow> v)"
  by (simp add: getSource_def try_except_total)

lemma getSource_returns: "\<exists>a b c. getSource m s = Inr (a, b, c)"
  by (simp add: getSource_eq)

lemma absent_group:
  assumes "py_getitem (groups m) (group_index s) = Inl e"
  shows "lookup_channel_group_acq_name m s = Inl e"
    and "lookup_acq_source_name m s = Inl e"
    and "lookup_acq_source_path m s = Inl e"
  using assms
  by (simp_all add: lookup_channel_group_acq_name_def lookup_acq_source_name_def
      lookup_acq_source_path_def)

lemma py_getitem_negative:
  assumes "- int (length xs) \<le> i" and "i < 0"
  shows "py_getitem xs i = py_getitem xs (i + int (length xs))"
  using assms by (simp add: py_getitem_def add.commute)

lemma getSource_negative:
  assumes "- int (length (groups m)) \<le> group_index s" and "group_index s < 0"
  shows "getSource m s = getSource m (s\<lparr>group_index := group_index s + int (length (groups m))\<rparr>)"
  using py_getitem_negative [OF assms]
  by (simp add: getSource_def lookup_channel_group_acq_name_def lookup_acq_source_name_def
      lookup_acq_source_path_def)

text \<open>
  C4. \<open>getSource\<close> returns for every container and signal. Each of the three fields
  is decided by its own lookup alone: the empty string when that lookup raises, the value
  found when it does not, whatever the other two lookups do. The groups are a Python list
  and the index is used as a subscript: for an index that the list does not accept, below
  \<open>-len\<close> or from \<open>len\<close> on, the result is three empty strings, and an index from
  \<open>-len\<close> to \<open>-1\<close> is resolved as the index \<open>len\<close> higher, the group counted from
  the end.
\<close>

theorem getSource_never_raises_fields_independent:
  "(\<exists>a b c. getSource m s = Inr (a, b, c)
      \<and> (\<forall>e. lookup_channel_group_acq_name m s = Inl e \<longrightarrow> a = '''')
      \<and> (\<forall>v. lookup_channel_group_acq_name m s = Inr v \<longrightarrow> a = v)
      \<and> (\<forall>e. lookup_acq_source_name m s = Inl e \<longrightarrow> b = '''')
      \<and> (\<forall>v. lookup_acq_source_name m s = Inr v \<longrightarrow> b = v)
      \<and> (\<forall>e. lookup_acq_source_path m s = Inl e \<longrightarrow> c = '''')
      \<and> (\<forall>v. lookup_acq_source_path m s = Inr v \<longrightarrow> c = v))
   \<and> (\<not> (- int (length (groups m)) \<le> group_index s \<and> group_index s < int (length (groups m)))
        \<longrightarrow> getSource m s = Inr ('''', '''', ''''))
   \<and> (- int (length (groups m)) \<le> group_index s \<and> group_index s < 0
        \<longrightarrow> getSource m s
            = getSource m (s\<lparr>group_index := group_index s + int (length (groups m))\<rparr>))"
proof (intro conjI impI)
  show "\<exists>a b c. getSource m s = Inr (a, b, c)
      \<and> (\<forall>e. lookup_channel_group_acq_name m s = Inl e \<longrightarrow> a = '''')
      \<and> (\<forall>v. lookup_channel_group_acq_name m s = Inr v \<longrightarrow> a = v)
      \<and> (\<forall>e. lookup_acq_source_name m s = Inl e \<longrightarrow> b = '''')
      \<and> (\<forall>v. lookup_acq_source_name m s = Inr v \<longrightarrow> b = v)
      \<and> (\<forall>e. lookup_acq_source_path m s = Inl e \<longrightarrow> c = '''')
      \<and> (\<forall>v. lookup_acq_source_path m s = Inr v \<longrightarrow> c = v)"
    by (auto simp: getSource_eq)
next
  assume "\<not> (- int (length (groups m)) \<le> group_index s \<and> group_index s < int (length (groups m)))"
  then have "py_getitem (groups m) (group_index s) = Inl IndexError"
    by (auto simp: py_getitem_def)
  then show "getSource m s = Inr ('''', '''', '''')"
    by (simp add: getSource_eq absent_group)
next
  assume "- int (length (groups m)) \<le> group_index s \<and> group_index s < 0"
  then show "getSource m s
      = getSource m (s\<lparr>group_index := group_index s + int (length (groups m))\<rparr>)"
    by (simp add: getSource_negative)
qed

text \<open>The theorem at five inputs: an index past the end, an index before the start, a
  group with all three fields, the same group addressed as \<open>-1\<close>, and a group whose
  source object is absent.\<close>

theorem getSource_witness:
  "getSource (recording [speed]) (speed\<lparr>group_index := 1\<rparr>) = Inr ('''', '''', '''')
   \<and> getSource (recording [speed]) (speed\<lparr>group_index := - 2\<rparr>) = Inr ('''', '''', '''')
   \<and> getSource (recording [speed]) speed = Inr (''Frame1'', ''CAN1'', ''CAN1.Frame1'')
   \<and> getSource (recording [speed]) (speed\<lparr>group_index := - 1\<rparr>) = getSource (recording [speed]) speed
   \<and> getSource (recording [speed]\<lparr>groups := [\<lparr>channel_group = Some \<lparr>acq_name = Some ''Frame1'', acq_source = None\<rparr>\<rparr>]\<rparr>) speed
        = Inr (''Frame1'', '''', '''')"
  using getSource_never_raises_fields_independent [of "recording [speed]" "speed\<lparr>group_index := 1\<rparr>"]
    getSource_never_raises_fields_independent [of "recording [speed]" "speed\<lparr>group_index := - 2\<rparr>"]
    getSource_never_raises_fields_independent [of "recording [speed]" speed]
    getSource_never_raises_fields_independent [of "recording [speed]" "speed\<lparr>group_index := - 1\<rparr>"]
    getSource_never_raises_fields_independent [of "recording [speed]\<lparr>groups := [\<lparr>channel_group = Some \<lparr>acq_name = Some ''Frame1'', acq_source = None\<rparr>\<rparr>]\<rparr>" speed]
  by (simp add: recording_def speed_def can_group_def lookup_channel_group_acq_name_def
      lookup_acq_source_name_def lookup_acq_source_path_def py_getitem_def getattr_def)

text \<open>
  The claim as stated fails at the group index \<open>-1\<close>: no group of the table has that
  index, and the result is the metadata of the last group, not three empty strings.
\<close>

theorem getSource_negative_index_counterexample:
  "\<not> (0 \<le> group_index (speed\<lparr>group_index := - 1\<rparr>)
        \<and> group_index (speed\<lparr>group_index := - 1\<rparr>) < int (length (groups (recording [speed]))))
   \<and> getSource (recording [speed]) (speed\<lparr>group_index := - 1\<rparr>)
        = Inr (''Frame1'', ''CAN1'', ''CAN1.Frame1'')
   \<and> getSource (recording [speed]) (speed\<lparr>group_index := - 1\<rparr>) \<noteq> Inr ('''', '''', '''')"
  by (simp add: recording_def speed_def can_group_def getSource_eq lookup_channel_group_acq_name_def
      lookup_acq_source_name_def lookup_acq_source_path_def py_getitem_def getattr_def)

section \<open>Type Classifier\<close>

text \<open>
  C6. For a signal whose samples are records, the numeric column holds \<open>0.0\<close> in every
  entry, one entry per timestamp, and the text column holds, at each index, the rendering
  \<^verbatim>\<open>pprint\<close> of the sample at that index, which depends on that sample alone.
\<close>

theorem record_signal_columns:
  assumes "samples s = RecordArray rs"
  shows "fst (extractSignalsByType l s) = replicate (length (timestamps s)) 0
         \<and> (\<forall>x \<in> set (fst (extractSignalsByType l s)). x = 0)
         \<and> length (snd (extractSignalsByType l s)) = length rs
         \<and> (\<forall>i < length rs. snd (extractSignalsByType l s) ! i = pprint l (rs ! i))"
  using assms by (simp add: extractSignalsByType_def np_full_def)

theorem record_signal_columns_witness:
  "samples frame = RecordArray [[(''id'', ''7''), (''dlc'', ''8'')]]
   \<and> extractSignalsByType zeroed_lib frame = ([0], [''id: 7'' @ [CHR 0x0A] @ ''dlc: 8'' @ [CHR 0x0A]])"
  using record_signal_columns [of frame "[[(''id'', ''7''), (''dlc'', ''8'')]]" zeroed_lib]
  by (simp add: frame_def zeroed_lib_def extractSignalsByType_def np_full_def)

text \<open>
  C7. For a signal with as many timestamps as samples, both columns of the classifier
  have the length of the timestamps, in each of the three cases.
\<close>

theorem classifier_lengths:
  assumes "length (timestamps s) = len_array (samples s)"
  shows "length (fst (extractSignalsByType l s)) = length (timestamps s)
         \<and> length (snd (extractSignalsByType l s)) = length (timestamps s)"
  using assms by (cases "samples s") (simp_all add: extractSignalsByType_def)

theorem classifier_lengths_witness:
  "length (timestamps speed) = len_array (samples speed)
   \<and> length (fst (extractSignalsByType zeroed_lib speed)) = 3
   \<and> length (snd (extractSignalsByType zeroed_lib speed)) = 3
   \<and> length (timestamps speed) = 3"
  using classifier_lengths [of speed zeroed_lib]
  by (simp add: speed_def)

section \<open>A recording without signals\<close>

text \<open>
  C10. When the container enumerates no signal, the signal dump, the columnar export and
  the row export each raise \<^verbatim>\<open>UnboundLocalError\<close> at \<^verbatim>\<open>return counter\<close>,
  having changed nothing, and \<^verbatim>\<open>processFile\<close>, which calls them without a handler,
  raises it too: a count is returned only for a recording with a signal.
\<close>

theorem no_signal_no_count:
  assumes "iter_channels m = []"
  shows "dumpSignals l m w = (Inl UnboundLocalError, w)
         \<and> writeParquet l basename m uuid tgt w = (Inl UnboundLocalError, w)
         \<and> writeCsv l basename m uuid tgt w = (Inl UnboundLocalError, w)
         \<and> (dump a \<or> exportFormat a = ''parquet'' \<or> exportFormat a = ''csv'' \<longrightarrow>
              processFile l a basename m uuid now w = (Inl UnboundLocalError, w))"
proof -
  from assms have three:
    "dumpSignals l m w = (Inl UnboundLocalError, w)"
    "\<And>tgt. writeParquet l basename m uuid tgt w = (Inl UnboundLocalError, w)"
    "\<And>tgt. writeCsv l basename m uuid tgt w = (Inl UnboundLocalError, w)"
    by (simp_all add: dumpSignals_def writeParquet_def writeCsv_def enumerate_eq_zip)
  then show ?thesis
    by (simp add: processFile_def)
qed

theorem no_signal_no_count_witness:
  "iter_channels (recording []) = []
   \<and> dumpSignals zeroed_lib (recording []) clean_world = (Inl UnboundLocalError, clean_world)
   \<and> writeParquet zeroed_lib ''rec'' (recording []) ''u1'' ''out'' clean_world = (Inl UnboundLocalError, clean_world)
   \<and> writeCsv zeroed_lib ''rec'' (recording []) ''u1'' ''out'' clean_world = (Inl UnboundLocalError, clean_world)
   \<and> processFile zeroed_lib parquet_args ''rec'' (recording []) ''u1'' ''2020'' clean_world
        = (Inl UnboundLocalError, clean_world)"
  using no_signal_no_count
    [of "recording []" zeroed_lib clean_world "''rec''" "''u1''" "''out''" parquet_args "''2020''"]
  by (simp add: recording_def parquet_args_def)

section \<open>File names of the row export\<close>

lemma of_char_digit_char: "d < 10 \<Longrightarrow> (of_char (digit_char d) :: nat) = 48 + d"
  by (simp add: digit_char_def)

lemma str_nat_decode:
  "foldl (\<lambda>a c. 10 * a + (of_char c - 48)) 0 (str_nat n) = n"
proof (induction n rule: str_nat.induct)
  case (1 n)
  show ?case
  proof (cases "n < 10")
    case True
    then show ?thesis by (subst str_nat.simps) (simp add: of_char_digit_char)
  next
    case False
    with 1 show ?thesis
      by (subst str_nat.simps) (simp add: of_char_digit_char)
  qed
qed

lemma str_nat_inj: "str_nat i = str_nat j \<Longrightarrow> i = j"
  by (metis str_nat_decode)

lemma os_path_join_inj:
  assumes "os_path_join a b = os_path_join a c" and "b \<noteq> []" and "c \<noteq> []" and "hd b = hd c"
  shows "b = c"
  using assms by (auto simp: os_path_join_def split: if_splits)

lemma csv_path_inj: "csv_path d u i = csv_path d u j \<Longrightarrow> i = j"
proof -
  assume eq: "csv_path d u i = csv_path d u j"
  have hd: "hd (u @ ''-'' @ str_nat i @ ''.csv.gz'') = hd (u @ ''-'' @ str_nat j @ ''.csv.gz'')"
    by (cases u) simp_all
  from eq have "u @ ''-'' @ str_nat i @ ''.csv.gz'' = u @ ''-'' @ str_nat j @ ''.csv.gz''"
    unfolding csv_path_def by (rule os_path_join_inj) (simp_all only: hd, simp_all)
  then show "i = j" by (simp add: str_nat_inj)
qed

lemma sublist_os_path_join_self: "sublist b (os_path_join a b)"
proof -
  have "sublist b (a @ ''/'' @ b)"
    by (metis append_assoc sublist_append_leftI)
  then show ?thesis
    unfolding os_path_join_def by (simp del: append.simps)
qed

lemma sublist_os_path_join: "sublist x b \<Longrightarrow> sublist x (os_path_join a b)"
  using sublist_os_path_join_self sublist_order.order.trans by blast

lemma csv_path_contains_uuid: "sublist u (csv_path d u i)"
  unfolding csv_path_def by (rule sublist_os_path_join) simp

lemma csv_path_contains_counter: "sublist (str_nat i) (csv_path d u i)"
proof -
  have "sublist (str_nat i) ((u @ ''-'') @ str_nat i @ ''.csv.gz'')"
    by (rule sublist_appendI)
  then show ?thesis
    unfolding csv_path_def by (intro sublist_os_path_join) (simp del: append.simps)
qed

lemma processSignalCSV_files:
  assumes "processSignalCSV l c a b cc s u d bn w = (r, w')"
    and "getSource m s = Inr (a, b, cc)"
  shows "(files w' = files w \<and> r \<noteq> Inr ())
         \<or> files w' = files w @ [(csv_path d u c, csv_file_of l m u s)]"
proof -
  obtain ns ss where ex: "extractSignalsByType l s = (ns, ss)"
    by fastforce
  obtain written eo where rows:
    "csv_rows l a b cc s u ns ss [0..<length (timestamps s)] [csv_header] = (written, eo)"
    by fastforce
  from assms(2) ex rows have content: "csv_file_of l m u s = CsvGz written"
    by (simp add: csv_file_of_def)
  show ?thesis
  proof (cases "fault w d")
    case (Some e)
    with assms(1) ex show ?thesis
      by (auto simp add: processSignalCSV_def check_fault_def)
  next
    case None
    show ?thesis
    proof (cases "fault w (csv_path d u c)")
      case (Some e)
      with assms(1) ex None show ?thesis
        by (auto simp add: processSignalCSV_def check_fault_def)
    next
      case None': None
      from assms(1) ex None None' rows content show ?thesis
        by (cases eo) (auto simp add: processSignalCSV_def check_fault_def write_file_def)
    qed
  qed
qed

lemma writeCsv_loop_files:
  assumes "writeCsv_loop l m u d bn (enumerate k sigs) cnt w = (r, w')"
  shows "\<exists>j \<le> length sigs.
           files w' = files w
             @ map (\<lambda>(i, s). (csv_path d u i, csv_file_of l m u s)) (take j (enumerate k sigs))
           \<and> ((\<exists>c. r = Inr c) \<longrightarrow> j = length sigs)"
  using assms
proof (induction sigs arbitrary: k cnt w)
  case Nil
  then show ?case by auto
next
  case (Cons s sigs)
  obtain a b cc where src: "getSource m s = Inr (a, b, cc)"
    using getSource_returns by blast
  obtain r1 w1 where p: "processSignalCSV l k a b cc s u d bn w = (r1, w1)"
    by fastforce
  show ?case
  proof (cases r1)
    case (Inl e)
    with Cons.prems src p have r: "r = Inl e" and w': "w' = w1" by simp_all
    from processSignalCSV_files [OF p src]
    consider "files w1 = files w"
      | "files w1 = files w @ [(csv_path d u k, csv_file_of l m u s)]" by blast
    then show ?thesis
    proof cases
      case 1
      with r w' show ?thesis by (intro exI [of _ 0]) simp
    next
      case 2
      with r w' show ?thesis by (intro exI [of _ 1]) simp
    qed
  next
    case (Inr x)
    with Cons.prems src p
    have rest: "writeCsv_loop l m u d bn (enumerate (Suc k) sigs) (Some k) w1 = (r, w')"
      by simp
    from processSignalCSV_files [OF p src] Inr
    have one: "files w1 = files w @ [(csv_path d u k, csv_file_of l m u s)]" by auto
    from Cons.IH [OF rest] obtain j where j: "j \<le> length sigs"
      "files w' = files w1
         @ map (\<lambda>(i, s). (csv_path d u i, csv_file_of l m u s)) (take j (enumerate (Suc k) sigs))"
      "(\<exists>c. r = Inr c) \<longrightarrow> j = length sigs" by blast
    with one show ?thesis
      by (intro exI [of _ "Suc j"]) simp
  qed
qed

lemma take_enumerate_paths:
  assumes "j \<le> length sigs"
  shows "map fst (map (\<lambda>(i, s). (csv_path d u i, f s)) (take j (enumerate k sigs)))
           = map (csv_path d u) [k..<k + j]"
proof -
  have a: "map fst (map (\<lambda>(i, s). (csv_path d u i, f s)) xs) = map (csv_path d u) (map fst xs)"
    for xs :: "(nat \<times> 'a) list"
    by (induction xs) auto
  have "map fst (take j (enumerate k sigs)) = take j [k..<k + length sigs]"
    by (metis map_fst_enumerate take_map)
  also have "\<dots> = [k..<k + j]"
    using assms by simp
  finally have b: "map fst (take j (enumerate k sigs)) = [k..<k + j]" .
  show ?thesis
    by (simp only: a b)
qed

text \<open>
  C8. Whatever the outcome of the row export, the files it has added are, in the order
  of the enumeration, one per signal from the first on: all of them when the export
  returns, the first few when a signal raises. The file added for the signal at index
  \<open>i\<close> of the enumeration is at \<open>csv_path\<close> of the run directory, the run id and
  \<open>i\<close>, and holds the rows of that signal. The path for index \<open>i\<close> contains the run id
  and the decimal text of \<open>i\<close>, and two indices with the same path are the same index.
\<close>

theorem row_files_named_by_run_and_index:
  "(\<forall>r w'. writeCsv l basename m uuid tgt w = (r, w') \<longrightarrow>
      (\<exists>j \<le> length (iter_channels m).
         length (files w') = length (files w) + j
         \<and> take (length (files w)) (files w') = files w
         \<and> (\<forall>i < j. files w' ! (length (files w) + i)
               = (csv_path (os_path_join tgt (basename @ ''-'' @ uuid)) uuid i,
                  csv_file_of l m uuid (iter_channels m ! i)))
         \<and> map fst (files w') = map fst (files w)
             @ map (csv_path (os_path_join tgt (basename @ ''-'' @ uuid)) uuid) [0..<j]
         \<and> ((\<exists>c. r = Inr c) \<longrightarrow> j = length (iter_channels m))))
   \<and> (\<forall>d i. sublist uuid (csv_path d uuid i) \<and> sublist (str_nat i) (csv_path d uuid i))
   \<and> (\<forall>d i j. csv_path d uuid i = csv_path d uuid j \<longrightarrow> i = j)"
proof (intro conjI allI impI)
  fix r w'
  assume run: "writeCsv l basename m uuid tgt w = (r, w')"
  let ?d = "os_path_join tgt (basename @ ''-'' @ uuid)"
  let ?new = "\<lambda>j. map (\<lambda>(i, s). (csv_path ?d uuid i, csv_file_of l m uuid s))
                   (take j (enumerate 0 (iter_channels m)))"
  obtain r0 where loop:
    "writeCsv_loop l m uuid ?d basename (enumerate 0 (iter_channels m)) None w = (r0, w')"
    and r: "(\<exists>c. r = Inr c) \<longrightarrow> (\<exists>c. r0 = Inr c)"
    using run by (auto simp: writeCsv_def split: prod.splits sum.splits)
  from writeCsv_loop_files [OF loop] r obtain j where j: "j \<le> length (iter_channels m)"
    and fs: "files w' = files w @ ?new j"
    and all: "(\<exists>c. r = Inr c) \<longrightarrow> j = length (iter_channels m)"
    by auto
  have len: "length (?new j) = j"
    using j by simp
  have nth: "?new j ! i = (csv_path ?d uuid i, csv_file_of l m uuid (iter_channels m ! i))"
    if "i < j" for i
    using that j by (simp add: nth_enumerate_eq)
  have paths: "map fst (?new j) = map (csv_path ?d uuid) [0..<j]"
    using take_enumerate_paths [OF j, of ?d uuid "csv_file_of l m uuid" 0] by simp
  show "\<exists>j \<le> length (iter_channels m).
         length (files w') = length (files w) + j
         \<and> take (length (files w)) (files w') = files w
         \<and> (\<forall>i < j. files w' ! (length (files w) + i)
               = (csv_path ?d uuid i, csv_file_of l m uuid (iter_channels m ! i)))
         \<and> map fst (files w') = map fst (files w) @ map (csv_path ?d uuid) [0..<j]
         \<and> ((\<exists>c. r = Inr c) \<longrightarrow> j = length (iter_channels m))"
  proof (intro exI [of _ j] conjI allI impI)
    show "j \<le> length (iter_channels m)" by (rule j)
    show "length (files w') = length (files w) + j" using fs len by simp
    show "take (length (files w)) (files w') = files w" using fs by simp
    show "files w' ! (length (files w) + i)
        = (csv_path ?d uuid i, csv_file_of l m uuid (iter_channels m ! i))" if "i < j" for i
      using fs nth [OF that] by (simp add: nth_append)
    show "map fst (files w') = map fst (files w) @ map (csv_path ?d uuid) [0..<j]"
      using fs paths by simp
    show "j = length (iter_channels m)" if "\<exists>c. r = Inr c"
      using all that by simp
  qed
next
  fix d i
  show "sublist uuid (csv_path d uuid i)" by (rule csv_path_contains_uuid)
  show "sublist (str_nat i) (csv_path d uuid i)" by (rule csv_path_contains_counter)
next
  fix d :: string and i j
  assume "csv_path d uuid i = csv_path d uuid j"
  then show "i = j" by (rule csv_path_inj)
qed

theorem row_files_witness:
  "fst (writeCsv zeroed_lib ''rec'' (recording [speed, gear]) ''u1'' ''out'' clean_world) = Inr 1
   \<and> files (snd (writeCsv zeroed_lib ''rec'' (recording [speed, gear]) ''u1'' ''out'' clean_world))
       = [(''out/rec-u1/u1-0.csv.gz'', csv_file_of zeroed_lib (recording [speed, gear]) ''u1'' speed),
          (''out/rec-u1/u1-1.csv.gz'', csv_file_of zeroed_lib (recording [speed, gear]) ''u1'' gear)]
   \<and> csv_file_of zeroed_lib (recording [speed, gear]) ''u1'' speed
       \<noteq> csv_file_of zeroed_lib (recording [speed, gear]) ''u1'' gear
   \<and> csv_path ''out/rec-u1'' ''u1'' 0 \<noteq> csv_path ''out/rec-u1'' ''u1'' 1"
proof -
  let ?m = "recording [speed, gear]"
  let ?run = "writeCsv zeroed_lib ''rec'' ?m ''u1'' ''out'' clean_world"
  let ?fs = "files (snd ?run)"
  have ret: "fst ?run = Inr 1"
    by code_simp
  have p0: "csv_path (os_path_join ''out'' (''rec'' @ ''-'' @ ''u1'')) ''u1'' 0 = ''out/rec-u1/u1-0.csv.gz''"
    and p1: "csv_path (os_path_join ''out'' (''rec'' @ ''-'' @ ''u1'')) ''u1'' 1 = ''out/rec-u1/u1-1.csv.gz''"
    by code_simp+
  have differ: "csv_file_of zeroed_lib ?m ''u1'' speed \<noteq> csv_file_of zeroed_lib ?m ''u1'' gear"
    by code_simp
  have two: "length (iter_channels ?m) = 2" "files clean_world = []"
    "iter_channels ?m ! 0 = speed" "iter_channels ?m ! 1 = gear"
    by (simp_all add: recording_def clean_world_def)
  from row_files_named_by_run_and_index
    [of zeroed_lib "''rec''" ?m "''u1''" "''out''" clean_world]
  have named: "\<exists>j \<le> length (iter_channels ?m).
         length ?fs = length (files clean_world) + j
         \<and> take (length (files clean_world)) ?fs = files clean_world
         \<and> (\<forall>i < j. ?fs ! (length (files clean_world) + i)
               = (csv_path (os_path_join ''out'' (''rec'' @ ''-'' @ ''u1'')) ''u1'' i,
                  csv_file_of zeroed_lib ?m ''u1'' (iter_channels ?m ! i)))
         \<and> map fst ?fs = map fst (files clean_world)
             @ map (csv_path (os_path_join ''out'' (''rec'' @ ''-'' @ ''u1'')) ''u1'') [0..<j]
         \<and> ((\<exists>c. fst ?run = Inr c) \<longrightarrow> j = length (iter_channels ?m))"
    and inj: "csv_path ''out/rec-u1'' ''u1'' 0 = csv_path ''out/rec-u1'' ''u1'' 1 \<longrightarrow> (0::nat) = 1"
    by (metis prod.collapse, blast)
  from named ret two have len: "length ?fs = 2"
    and nth: "\<forall>i < 2. ?fs ! i
               = (csv_path (os_path_join ''out'' (''rec'' @ ''-'' @ ''u1'')) ''u1'' i,
                  csv_file_of zeroed_lib ?m ''u1'' (iter_channels ?m ! i))"
    by auto
  from nth two p0 p1 have "?fs ! 0 = (''out/rec-u1/u1-0.csv.gz'', csv_file_of zeroed_lib ?m ''u1'' speed)"
    "?fs ! 1 = (''out/rec-u1/u1-1.csv.gz'', csv_file_of zeroed_lib ?m ''u1'' gear)"
    by auto
  with len have "?fs = [(''out/rec-u1/u1-0.csv.gz'', csv_file_of zeroed_lib ?m ''u1'' speed),
          (''out/rec-u1/u1-1.csv.gz'', csv_file_of zeroed_lib ?m ''u1'' gear)]"
    by (auto simp: list_eq_iff_nth_eq less_Suc_eq numeral_2_eq_2)
  with ret differ inj show ?thesis by simp
qed

section \<open>The count that the export returns\<close>

lemma writeParquet_loop_counter:
  "\<exists>tasks. writeParquet_loop l m uuid d (enumerate k sigs) res cnt
      = Inr (res @ tasks, if sigs = [] then cnt else Some (k + length sigs - 1))
      \<and> length tasks = length sigs"
proof (induction sigs arbitrary: k res cnt)
  case Nil
  then show ?case by simp
next
  case (Cons s sigs)
  obtain a b c where src: "getSource m s = Inr (a, b, c)"
    using getSource_returns by blast
  from Cons.IH [of "Suc k" "res @ [processSignal l k a b c s uuid d]" "Some k"]
  obtain tasks where
    "writeParquet_loop l m uuid d (enumerate (Suc k) sigs) (res @ [processSignal l k a b c s uuid d]) (Some k)
      = Inr ((res @ [processSignal l k a b c s uuid d]) @ tasks,
             if sigs = [] then Some k else Some (Suc k + length sigs - 1))"
    "length tasks = length sigs"
    by blast
  with src show ?case
    by (intro exI [of _ "processSignal l k a b c s uuid d # tasks"]) auto
qed

text \<open>The columnar export of a recording with signals returns in every world, and what
  it returns is the index of the last signal.\<close>

lemma writeParquet_returns_last_index:
  assumes "iter_channels m \<noteq> []"
  shows "fst (writeParquet l basename m uuid tgt w) = Inr (length (iter_channels m) - 1)"
proof -
  from writeParquet_loop_counter
    [of l m uuid "os_path_join tgt (basename @ ''-'' @ uuid)" 0 "iter_channels m" "[]" None]
  obtain tasks where
    "writeParquet_loop l m uuid (os_path_join tgt (basename @ ''-'' @ uuid))
       (enumerate 0 (iter_channels m)) [] None
     = Inr (tasks, Some (length (iter_channels m) - 1))"
    using assms by auto
  then show ?thesis by (simp add: writeParquet_def)
qed

lemma writeCsv_loop_counter:
  assumes "writeCsv_loop l m uuid d basename (enumerate k sigs) cnt w = (Inr c, w')"
  shows "c = (if sigs = [] then cnt else Some (k + length sigs - 1))"
  using assms
proof (induction sigs arbitrary: k cnt w)
  case Nil
  then show ?case by simp
next
  case (Cons s sigs)
  obtain a b cc where src: "getSource m s = Inr (a, b, cc)"
    using getSource_returns by blast
  obtain r1 w1 where p: "processSignalCSV l k a b cc s uuid d basename w = (r1, w1)"
    by fastforce
  show ?case
  proof (cases r1)
    case (Inl e)
    with Cons.prems src p show ?thesis by simp
  next
    case (Inr x)
    with Cons.prems src p
    have "writeCsv_loop l m uuid d basename (enumerate (Suc k) sigs) (Some k) w1 = (Inr c, w')"
      by simp
    from Cons.IH [OF this] show ?thesis by auto
  qed
qed

text \<open>When the row export returns, it returns the index of the last signal.\<close>

lemma writeCsv_returns_last_index:
  assumes "writeCsv l basename m uuid tgt w = (Inr c, w')"
  shows "iter_channels m \<noteq> [] \<and> c = length (iter_channels m) - 1"
proof -
  let ?d = "os_path_join tgt (basename @ ''-'' @ uuid)"
  from assms obtain cnt where
    loop: "writeCsv_loop l m uuid ?d basename (enumerate 0 (iter_channels m)) None w = (Inr cnt, w')"
    and ret: "return_local cnt = Inr c"
    by (auto simp: writeCsv_def split: prod.splits sum.splits)
  from writeCsv_loop_counter [OF loop] ret show ?thesis
    by (cases "iter_channels m = []") auto
qed

text \<open>
  C1. The claim fails on the code. For the recording with the one signal \<^verbatim>\<open>Speed\<close>,
  in a world without faults, both exports return \<open>0\<close> and the manifest of either run
  holds \<^verbatim>\<open>numberOfChunks\<close> \<open>0\<close>, while one signal was enumerated and the manifest
  lists one signal: \<^verbatim>\<open>return counter\<close> gives the last index, not the count.
\<close>

theorem one_signal_manifest_counts_zero:
  "length (iter_channels (recording [speed])) = 1
   \<and> fst (writeParquet zeroed_lib ''rec'' (recording [speed]) ''u1'' ''out'' clean_world) = Inr 0
   \<and> fst (writeCsv zeroed_lib ''rec'' (recording [speed]) ''u1'' ''out'' clean_world) = Inr 0
   \<and> numberOfChunks_at
        (snd (processFile zeroed_lib parquet_args ''rec'' (recording [speed]) ''u1'' ''2020'' clean_world))
        ''out/rec-u1.metadata.json'' = Some (JInt 0)
   \<and> numberOfChunks_at
        (snd (processFile zeroed_lib csv_args ''rec'' (recording [speed]) ''u1'' ''2020'' clean_world))
        ''out/rec-u1.metadata.json'' = Some (JInt 0)"
  by code_simp

section \<open>The row written for a sample that is not a number\<close>

text \<open>In every row that is written, the cell \<^verbatim>\<open>value\<close> is the entry of the numeric
  column; \<^verbatim>\<open>numericValue\<close> is bound and not used.\<close>

lemma csv_row_value_cell:
  assumes "csv_row l a b c s uuid numericSignals stringSignals indx = Inr row"
  shows "length row = 12 \<and> (\<exists>num. py_getitem numericSignals (int indx) = Inr num \<and> row ! 4 = PyFloat num)"
  using assms unfolding csv_row_def
  by (auto simp: rbind_def split: sum.splits)

lemma numericValue_of_never_raises: "\<exists>v. numericValue_of l s indx = Inr v"
  by (simp add: numericValue_of_def try_except_total)

text \<open>
  C2. The claim fails on the code. The text signal \<^verbatim>\<open>Gear\<close> has the one sample
  \<^verbatim>\<open>abc\<close>, which \<^verbatim>\<open>float\<close> refuses. The guarded conversion binds
  \<^verbatim>\<open>numericValue\<close> to the tuple of one empty string and raises nothing, and the row
  that is written has \<open>0.0\<close> in the cell \<^verbatim>\<open>value\<close>, not an empty placeholder.
\<close>

theorem unconvertible_sample_written_as_zero:
  "py_float zeroed_lib (OtherS ''abc'') = Inl ValueError
   \<and> numericValue_of zeroed_lib gear 0 = Inr (PyTuple [PyStr ''''])
   \<and> fst (writeCsv zeroed_lib ''rec'' (recording [gear]) ''u1'' ''out'' clean_world) = Inr 0
   \<and> files (snd (writeCsv zeroed_lib ''rec'' (recording [gear]) ''u1'' ''out'' clean_world))
       = [(''out/rec-u1/u1-0.csv.gz'',
           CsvGz [csv_header,
                  [PyStr ''u1'', PyStr ''Gear'', PyStr '''', PyFloat 0, PyFloat 0, PyStr ''abc'',
                   PyStr ''ECU1'', PyStr ''Frame1'', PyStr ''CAN1'', PyStr ''CAN1.Frame1'',
                   PyStr ''ECU'', PyStr ''CAN'']])]"
  by code_simp

section \<open>A signal whose processing fails\<close>

lemma processSignal_returns: "fst (processSignal l i a b c sg u d w) = Inr ()"
  by (auto simp: processSignal_def split: prod.splits sum.splits)

text \<open>
  C3. The claim fails on the code. In a world where nothing can be written under the
  directory of the run, the sink raises for the one signal \<^verbatim>\<open>Speed\<close>. The columnar
  run catches it and writes the manifest, with \<^verbatim>\<open>numberOfChunks\<close> \<open>0\<close> and not
  \<open>1\<close>. The row run of the two signals \<^verbatim>\<open>Speed\<close> and \<^verbatim>\<open>Gear\<close> raises at the
  first: the second is not processed and no manifest is written.
\<close>

theorem failing_sink_count_and_abort:
  "fst (processFile zeroed_lib parquet_args ''rec'' (recording [speed]) ''u1'' ''2020'' readonly_world) = Inr ()
   \<and> numberOfChunks_at
        (snd (processFile zeroed_lib parquet_args ''rec'' (recording [speed]) ''u1'' ''2020'' readonly_world))
        ''out/rec-u1.metadata.json'' = Some (JInt 0)
   \<and> fst (processFile zeroed_lib csv_args ''rec'' (recording [speed, gear]) ''u1'' ''2020'' readonly_world)
        = Inl OSError
   \<and> files (snd (processFile zeroed_lib csv_args ''rec'' (recording [speed, gear]) ''u1'' ''2020'' readonly_world))
        = []"
  by code_simp

section \<open>The text column of a numeric signal\<close>

lemma number_signal_columns:
  assumes "samples s = NumberArray ns"
  shows "extractSignalsByType l s
         = (map (astype_double l) ns, map (uninitialised l) [0..<length (timestamps s)])"
  using assms by (simp add: extractSignalsByType_def np_empty_def)

text \<open>
  C5. The claim fails on the code. The numeric column of \<^verbatim>\<open>Speed\<close> is the samples
  as doubles; the text column is the block that \<^verbatim>\<open>np.empty\<close> allocated, which
  nothing has filled: where that block holds the character \<^verbatim>\<open>x\<close>, so does every
  entry of the text column.
\<close>

theorem number_signal_text_uninitialised:
  "extractSignalsByType dirty_lib speed
     = ([0x4024000000000000, 0x4034800000000000, 0x403E000000000000], [''x'', ''x'', ''x''])
   \<and> snd (extractSignalsByType dirty_lib speed) \<noteq> replicate (length (timestamps speed)) ''''"
  by code_simp


section \<open>The barrier before the manifest\<close>

lemma processSignal_files:
  "files (snd (processSignal l i a b c sg u d w)) = files w
   \<or> (\<exists>t. files (snd (processSignal l i a b c sg u d w)) = files w @ [(d, ParquetPartition t)])"
  by (auto simp: processSignal_def processSignal_try_def write_to_dataset_def check_fault_def
      write_file_def split: sum.splits option.splits)

lemma writeMetadata_files:
  assumes "writeMetadata l basename m uuid tgt c now w = (Inr x, w')"
  shows "\<exists>j. files w' = files w @ [(metadata_path tgt basename uuid, JsonFile j)]"
  using assms
  by (auto simp: writeMetadata_def check_fault_def write_file_def split: option.splits sum.splits)

lemma done_update: "k < length rs \<Longrightarrow> snd (rs ! k) \<Longrightarrow> snd (rs[j := (x, True)] ! k)"
  by (cases "k = j") simp_all

lemma barrier_inv_initial: "barrier_inv l basename m uuid tgt w0 (initial w0)"
  by (simp add: barrier_inv_def initial_def)

lemma barrier_invD:
  assumes "barrier_inv l basename m uuid tgt w0 s"
  shows "phase_inv (length (iter_channels m)) (result s) (at s)"
    and "\<And>r. r \<in> set (result s) \<Longrightarrow> \<exists>i a b c sg.
            fst r = processSignal l i a b c sg uuid (os_path_join tgt (basename @ ''-'' @ uuid))"
    and "\<not> manifest_phase (at s) \<Longrightarrow>
            \<exists>ps. files (world s) = files w0 @ ps \<and> (\<forall>x \<in> set ps. \<not> is_manifest (snd x))"
    and "at s = Finished \<Longrightarrow>
            \<exists>ps j. files (world s) = files w0 @ ps @ [(metadata_path tgt basename uuid, JsonFile j)]"
  using assms unfolding barrier_inv_def by blast+

lemma barrier_inv_worker:
  assumes "barrier_inv l basename m uuid tgt w0 s"
  shows "barrier_inv l basename m uuid tgt w0 (worker_step j s)"
proof (cases "j < length (result s) \<and> \<not> snd (result s ! j)")
  case False
  then have "worker_step j s = s" by (auto simp add: worker_step_def)
  with assms show ?thesis by simp
next
  case True
  let ?d = "os_path_join tgt (basename @ ''-'' @ uuid)"
  let ?s' = "worker_step j s"
  note inv = barrier_invD [OF assms]
  from True have s': "?s' = s\<lparr>result := (result s)[j := (fst (result s ! j), True)],
          world := snd (fst (result s ! j) (world s))\<rparr>"
    by (simp add: worker_step_def)
  from True have mem: "result s ! j \<in> set (result s)" by simp
  with inv(2) obtain i a b c sg where task: "fst (result s ! j) = processSignal l i a b c sg uuid ?d"
    by blast
  have not_all_done: "\<not> (\<forall>r \<in> set (result s). snd r)"
    using True mem by blast
  have ph: "phase_inv (length (iter_channels m)) (result ?s') (at ?s')"
  proof (cases "at s")
    case (Dispatching i)
    with inv(1) show ?thesis by (simp add: s')
  next
    case (Waiting k)
    with inv(1) show ?thesis by (auto simp add: s' intro!: done_update)
  qed (use inv(1) not_all_done in auto)
  have tasks: "\<exists>i a b c sg. fst r = processSignal l i a b c sg uuid ?d"
    if "r \<in> set (result ?s')" for r
  proof -
    from that have "r \<in> set (result s) \<or> r = (fst (result s ! j), True)"
      unfolding s' using set_update_subset_insert by fastforce
    then show ?thesis
    proof
      assume "r \<in> set (result s)"
      then show ?thesis by (rule inv(2))
    next
      assume "r = (fst (result s ! j), True)"
      with task have "fst r = processSignal l i a b c sg uuid ?d" by simp
      then show ?thesis by (intro exI)
    qed
  qed
  have nm: "\<not> manifest_phase (at s)"
    using inv(1) not_all_done by (cases "at s") auto
  with inv(3) obtain ps where ps: "files (world s) = files w0 @ ps" "\<forall>x \<in> set ps. \<not> is_manifest (snd x)"
    by blast
  have files': "\<exists>ps'. files (world ?s') = files w0 @ ps' \<and> (\<forall>x \<in> set ps'. \<not> is_manifest (snd x))"
  proof -
    from processSignal_files [of l i a b c sg uuid ?d "world s"]
    consider "files (world ?s') = files (world s)"
      | t where "files (world ?s') = files (world s) @ [(?d, ParquetPartition t)]"
      unfolding s' task by auto
    then show ?thesis
    proof cases
      case 1
      with ps show ?thesis by auto
    next
      case 2
      with ps have "files (world ?s') = files w0 @ (ps @ [(?d, ParquetPartition t)])"
        "\<forall>x \<in> set (ps @ [(?d, ParquetPartition t)]). \<not> is_manifest (snd x)"
        by (auto simp: is_manifest_def)
      then show ?thesis by blast
    qed
  qed
  have at': "at ?s' = at s" by (simp add: s')
  have nf: "at s \<noteq> Finished" using nm by auto
  show ?thesis
    unfolding barrier_inv_def at' using ph tasks files' nf at' by auto
qed


lemma barrier_inv_main:
  assumes "barrier_inv l basename m uuid tgt w0 s"
  shows "barrier_inv l basename m uuid tgt w0 (main_step l basename m uuid tgt now s)"
proof -
  let ?d = "os_path_join tgt (basename @ ''-'' @ uuid)"
  let ?n = "length (iter_channels m)"
  note inv = barrier_invD [OF assms]
  show ?thesis
  proof (cases "at s")
    case (Dispatching i)
    with inv(1) have i: "i \<le> ?n" "length (result s) = i" by simp_all
    from Dispatching inv(3) obtain ps where ps: "files (world s) = files w0 @ ps"
      "\<forall>x \<in> set ps. \<not> is_manifest (snd x)" by auto
    show ?thesis
    proof (cases "i < ?n")
      case True
      obtain a b c where src: "getSource m (iter_channels m ! i) = Inr (a, b, c)"
        using getSource_returns by blast
      let ?t = "processSignal l i a b c (iter_channels m ! i) uuid ?d"
      have s': "main_step l basename m uuid tgt now s =
          s\<lparr>at := Dispatching (Suc i), result := result s @ [(?t, False)], counter := Some i\<rparr>"
        using Dispatching True src by (simp add: main_step_def)
      have "\<exists>i a b c sg. fst r = processSignal l i a b c sg uuid ?d"
        if "r \<in> set (result s @ [(?t, False)])" for r
      proof (cases "r \<in> set (result s)")
        case True
        then show ?thesis by (rule inv(2))
      next
        case False
        with that have "fst r = ?t" by auto
        then show ?thesis by (intro exI)
      qed
      with i True ps show ?thesis
        unfolding s' barrier_inv_def by auto
    next
      case False
      then have s': "main_step l basename m uuid tgt now s = s\<lparr>at := Waiting 0\<rparr>"
        using Dispatching by (simp add: main_step_def)
      from False i have "length (result s) = ?n" by simp
      with ps inv(2) show ?thesis
        unfolding s' barrier_inv_def by auto
    qed
  next
    case (Waiting j)
    with inv(1) have j: "j \<le> ?n" "length (result s) = ?n" "\<forall>k<j. snd (result s ! k)"
      by simp_all
    from Waiting inv(3) obtain ps where ps: "files (world s) = files w0 @ ps"
      "\<forall>x \<in> set ps. \<not> is_manifest (snd x)" by auto
    consider (ready) "j < ?n" "snd (result s ! j)" | (blocked) "j < ?n" "\<not> snd (result s ! j)"
      | (all) "j = ?n" using j(1) by linarith
    then show ?thesis
    proof cases
      case ready
      then have s': "main_step l basename m uuid tgt now s = s\<lparr>at := Waiting (Suc j)\<rparr>"
        using Waiting j by (simp add: main_step_def)
      have "\<forall>k<Suc j. snd (result s ! k)"
        using j(3) ready(2) less_Suc_eq by auto
      with ready j ps inv(2) show ?thesis
        unfolding s' barrier_inv_def by auto
    next
      case blocked
      then have "main_step l basename m uuid tgt now s = s"
        using Waiting j by (simp add: main_step_def)
      with assms show ?thesis by simp
    next
      case all
      then have s': "main_step l basename m uuid tgt now s = s\<lparr>at := Returning\<rparr>"
        using Waiting j by (simp add: main_step_def)
      have "\<forall>r \<in> set (result s). snd r"
        using j(2,3) all by (metis in_set_conv_nth)
      with j ps inv(2) show ?thesis
        unfolding s' barrier_inv_def by auto
    qed
  next
    case Returning
    with inv(1) have d: "length (result s) = ?n" "\<forall>r \<in> set (result s). snd r" by simp_all
    from Returning inv(3) obtain ps where ps: "files (world s) = files w0 @ ps"
      "\<forall>x \<in> set ps. \<not> is_manifest (snd x)" by auto
    show ?thesis
    proof (cases "return_local (counter s)")
      case (Inl e)
      then have s': "main_step l basename m uuid tgt now s = s\<lparr>at := Raised e\<rparr>"
        using Returning by (simp add: main_step_def)
      from d inv(2) show ?thesis unfolding s' barrier_inv_def by auto
    next
      case (Inr c)
      then have s': "main_step l basename m uuid tgt now s = s\<lparr>at := WritingMetadata c\<rparr>"
        using Returning by (simp add: main_step_def)
      from d ps inv(2) show ?thesis unfolding s' barrier_inv_def by auto
    qed
  next
    case (WritingMetadata c)
    with inv(1) have d: "length (result s) = ?n" "\<forall>r \<in> set (result s). snd r" by simp_all
    from WritingMetadata inv(3) obtain ps where ps: "files (world s) = files w0 @ ps"
      "\<forall>x \<in> set ps. \<not> is_manifest (snd x)" by auto
    obtain r w' where wm: "writeMetadata l basename m uuid tgt c now (world s) = (r, w')"
      by fastforce
    show ?thesis
    proof (cases r)
      case (Inl e)
      with wm have s': "main_step l basename m uuid tgt now s = s\<lparr>at := Raised e, world := w'\<rparr>"
        using WritingMetadata by (simp add: main_step_def)
      from d inv(2) show ?thesis unfolding s' barrier_inv_def by auto
    next
      case (Inr x)
      with wm have s': "main_step l basename m uuid tgt now s = s\<lparr>at := Finished, world := w'\<rparr>"
        using WritingMetadata by (simp add: main_step_def)
      from wm Inr obtain j where "files w' = files (world s) @ [(metadata_path tgt basename uuid, JsonFile j)]"
        using writeMetadata_files by blast
      with ps have "files w' = files w0 @ ps @ [(metadata_path tgt basename uuid, JsonFile j)]"
        by simp
      with d inv(2) show ?thesis unfolding s' barrier_inv_def by auto
    qed
  next
    case Finished
    then have "main_step l basename m uuid tgt now s = s" by (simp add: main_step_def)
    with assms show ?thesis by simp
  next
    case (Raised e)
    then have "main_step l basename m uuid tgt now s = s" by (simp add: main_step_def)
    with assms show ?thesis by simp
  qed
qed

lemma barrier_inv_step:
  "barrier_inv l basename m uuid tgt w0 s \<Longrightarrow>
   barrier_inv l basename m uuid tgt w0 (step l basename m uuid tgt now a s)"
  by (cases a) (simp_all add: barrier_inv_main barrier_inv_worker)

lemma barrier_inv_fold:
  "barrier_inv l basename m uuid tgt w0 s \<Longrightarrow>
   barrier_inv l basename m uuid tgt w0 (fold (step l basename m uuid tgt now) schedule s)"
  by (induction schedule arbitrary: s) (simp_all add: barrier_inv_step)

lemma barrier_inv_run:
  "barrier_inv l basename m uuid tgt w0 (run l basename m uuid tgt now schedule (initial w0))"
  unfolding run_def by (rule barrier_inv_fold) (rule barrier_inv_initial)

lemma finished_stays:
  assumes "at s = Finished" and "\<forall>r \<in> set (result s). snd r"
  shows "step l basename m uuid tgt now a s = s"
proof (cases a)
  case Main
  with assms show ?thesis by (simp add: main_step_def)
next
  case (Worker j)
  with assms(2) show ?thesis by (auto simp: worker_step_def)
qed

lemma finished_stays_fold:
  assumes "at s = Finished" and "\<forall>r \<in> set (result s). snd r"
  shows "fold (step l basename m uuid tgt now) later s = s"
  using assms by (induction later) (simp_all add: finished_stays)

text \<open>
  C9. The columnar export of a recording under every schedule of the main process and the
  workers. Once the export step has been left, a handle exists for every signal and every
  task has run. A manifest file that was not there at the start is there only when every
  task has run. When the run is finished, the manifest is the last file written and no
  move of anyone changes the state any more.
\<close>

theorem manifest_after_all_tasks:
  "(export_left (at (run l basename m uuid tgt now schedule (initial w0))) \<longrightarrow>
      length (result (run l basename m uuid tgt now schedule (initial w0))) = length (iter_channels m)
      \<and> (\<forall>r \<in> set (result (run l basename m uuid tgt now schedule (initial w0))). snd r))
   \<and> ((\<exists>x \<in> set (drop (length (files w0))
                     (files (world (run l basename m uuid tgt now schedule (initial w0))))).
          is_manifest (snd x)) \<longrightarrow>
      length (result (run l basename m uuid tgt now schedule (initial w0))) = length (iter_channels m)
      \<and> (\<forall>r \<in> set (result (run l basename m uuid tgt now schedule (initial w0))). snd r))
   \<and> (at (run l basename m uuid tgt now schedule (initial w0)) = Finished \<longrightarrow>
      (\<exists>j. last (files (world (run l basename m uuid tgt now schedule (initial w0))))
             = (metadata_path tgt basename uuid, JsonFile j))
      \<and> (\<forall>later. run l basename m uuid tgt now later (run l basename m uuid tgt now schedule (initial w0))
             = run l basename m uuid tgt now schedule (initial w0)))"
proof -
  let ?s = "run l basename m uuid tgt now schedule (initial w0)"
  let ?n = "length (iter_channels m)"
  have "barrier_inv l basename m uuid tgt w0 ?s"
    by (rule barrier_inv_run)
  note inv = barrier_invD [OF this]
  have left: "length (result ?s) = ?n \<and> (\<forall>r \<in> set (result ?s). snd r)" if "export_left (at ?s)"
    using that inv(1) by (cases "at ?s") simp_all
  have manifest: "length (result ?s) = ?n \<and> (\<forall>r \<in> set (result ?s). snd r)"
    if m: "\<exists>x \<in> set (drop (length (files w0)) (files (world ?s))). is_manifest (snd x)"
  proof (cases "manifest_phase (at ?s)")
    case True
    then have "export_left (at ?s)" by (cases "at ?s") simp_all
    then show ?thesis by (rule left)
  next
    case False
    from inv(3) [OF False] obtain ps where "files (world ?s) = files w0 @ ps"
      "\<forall>x \<in> set ps. \<not> is_manifest (snd x)" by blast
    with m show ?thesis by simp
  qed
  have finished: "(\<exists>j. last (files (world ?s)) = (metadata_path tgt basename uuid, JsonFile j))
      \<and> (\<forall>later. run l basename m uuid tgt now later ?s = ?s)" if f: "at ?s = Finished"
  proof
    from inv(4) [OF f] obtain ps j where
      "files (world ?s) = files w0 @ ps @ [(metadata_path tgt basename uuid, JsonFile j)]"
      by blast
    then show "\<exists>j. last (files (world ?s)) = (metadata_path tgt basename uuid, JsonFile j)"
      by simp
    from f have "\<forall>r \<in> set (result ?s). snd r"
      using left by simp
    with f show "\<forall>later. run l basename m uuid tgt now later ?s = ?s"
      by (simp add: run_def [of _ _ _ _ _ _ _ ?s] finished_stays_fold)
  qed
  from left manifest finished show ?thesis by blast
qed

text \<open>
  One signal, one worker. The main process dispatches the task and blocks at its wait
  until the worker has run the task; then it returns the counter and writes the manifest.
  Without the worker's move the main process stays at the wait.
\<close>

theorem manifest_after_all_tasks_witness:
  "at (run zeroed_lib ''rec'' (recording [speed]) ''u1'' ''out'' ''2020''
         [Main, Main, Main, Worker 0, Main, Main, Main, Main] (initial clean_world)) = Finished
   \<and> length (result (run zeroed_lib ''rec'' (recording [speed]) ''u1'' ''out'' ''2020''
         [Main, Main, Main, Worker 0, Main, Main, Main, Main] (initial clean_world))) = 1
   \<and> map snd (result (run zeroed_lib ''rec'' (recording [speed]) ''u1'' ''out'' ''2020''
         [Main, Main, Main, Worker 0, Main, Main, Main, Main] (initial clean_world))) = [True]
   \<and> (\<exists>j. last (files (world (run zeroed_lib ''rec'' (recording [speed]) ''u1'' ''out'' ''2020''
         [Main, Main, Main, Worker 0, Main, Main, Main, Main] (initial clean_world))))
         = (''out/rec-u1.metadata.json'', JsonFile j))
   \<and> files (world (run zeroed_lib ''rec'' (recording [speed]) ''u1'' ''out'' ''2020''
         [Main, Main, Main, Worker 0, Main, Main, Main, Main] (initial clean_world)))
       = files (snd (processFile zeroed_lib parquet_args ''rec'' (recording [speed]) ''u1'' ''2020'' clean_world))
   \<and> at (run zeroed_lib ''rec'' (recording [speed]) ''u1'' ''out'' ''2020''
         [Main, Main, Main, Main, Main, Main, Main, Main] (initial clean_world)) = Waiting 0"
proof -
  let ?s = "run zeroed_lib ''rec'' (recording [speed]) ''u1'' ''out'' ''2020''
         [Main, Main, Main, Worker 0, Main, Main, Main, Main] (initial clean_world)"
  have fin: "at ?s = Finished"
    by code_simp
  have same: "files (world ?s)
       = files (snd (processFile zeroed_lib parquet_args ''rec'' (recording [speed]) ''u1'' ''2020'' clean_world))"
    by code_simp
  have blocked: "at (run zeroed_lib ''rec'' (recording [speed]) ''u1'' ''out'' ''2020''
         [Main, Main, Main, Main, Main, Main, Main, Main] (initial clean_world)) = Waiting 0"
    by code_simp
  have path: "metadata_path ''out'' ''rec'' ''u1'' = ''out/rec-u1.metadata.json''"
    by code_simp
  have one: "length (iter_channels (recording [speed])) = 1"
    by (simp add: recording_def)
  from manifest_after_all_tasks
    [of zeroed_lib "''rec''" "recording [speed]" "''u1''" "''out''" "''2020''"
        "[Main, Main, Main, Worker 0, Main, Main, Main, Main]" clean_world]
    fin one path
  have "length (result ?s) = 1" "\<forall>r \<in> set (result ?s). snd r"
    "\<exists>j. last (files (world ?s)) = (''out/rec-u1.metadata.json'', JsonFile j)"
    by simp_all
  moreover from this(1,2) have "map snd (result ?s) = [True]"
    by (auto simp: length_Suc_conv)
  ultimately show ?thesis
    using fin same blocked by blast
qed

end
